theory Spec2Isabelle
  imports Main "HOL-Library.AList"
begin

section \<open>Python values\<close>

text \<open>
  The adapters handle decoded JSON: \<^verbatim>\<open>response.json()\<close> and the dictionaries the
  services build. A Python \<^verbatim>\<open>dict\<close> with string keys is an association list; a new key
  goes to the end and an existing key is overwritten in place (\<open>AList.update\<close>), which is
  the insertion order Python keeps. JSON numbers are integers (floating point is outside
  the model). \<open>JNull\<close> is \<^verbatim>\<open>None\<close>.
\<close>

datatype json =
    JNull
  | JBool bool
  | JNum int
  | JStr string
  | JArr "json list"
  | JObj "(string \<times> json) list"

type_synonym pydict = "(string \<times> json) list"

text \<open>Truthiness, as \<^verbatim>\<open>if x:\<close> tests it.\<close>

fun truthy :: "json \<Rightarrow> bool" where
  "truthy JNull = False"
| "truthy (JBool b) = b"
| "truthy (JNum n) = (n \<noteq> 0)"
| "truthy (JStr s) = (s \<noteq> [])"
| "truthy (JArr xs) = (xs \<noteq> [])"
| "truthy (JObj kvs) = (kvs \<noteq> [])"

text \<open>\<^verbatim>\<open>k in d\<close>, \<^verbatim>\<open>d.get(k, default)\<close> and \<^verbatim>\<open>d[k] = v\<close> on a dictionary.\<close>

definition has_key :: "pydict \<Rightarrow> string \<Rightarrow> bool" where
  "has_key d k = (map_of d k \<noteq> None)"

definition dict_get :: "pydict \<Rightarrow> string \<Rightarrow> json \<Rightarrow> json" where
  "dict_get d k dflt = (case map_of d k of None \<Rightarrow> dflt | Some v \<Rightarrow> v)"

definition dict_set :: "string \<Rightarrow> 'v \<Rightarrow> (string \<times> 'v) list \<Rightarrow> (string \<times> 'v) list" where
  "dict_set k v d = AList.update k v d"

text \<open>
  Exceptions the modelled code can meet. \<open>RequestException\<close> is
  \<^verbatim>\<open>requests.exceptions.RequestException\<close> with its message; the other constructors are
  the Django and Python exceptions of the same name.
\<close>

datatype exn =
    DoesNotExist
  | MultipleObjectsReturned
  | IntegrityError
  | RequestException string
  | AttributeError

text \<open>\<^verbatim>\<open>str(e)\<close>: the message of a request exception is its own; the others get a fixed text.\<close>

fun str_exn :: "exn \<Rightarrow> string" where
  "str_exn DoesNotExist = ''SocialMediaAccount matching query does not exist.''"
| "str_exn MultipleObjectsReturned = ''get() returned more than one SocialMediaAccount''"
| "str_exn IntegrityError = ''UNIQUE constraint failed''"
| "str_exn (RequestException msg) = msg"
| "str_exn AttributeError = ''object has no attribute get''"

text \<open>\<^verbatim>\<open>x.get(k, default)\<close> on a value that need not be a dictionary.\<close>

fun attr_get :: "json \<Rightarrow> string \<Rightarrow> json \<Rightarrow> exn + json" where
  "attr_get (JObj d) k dflt = Inr (dict_get d k dflt)"
| "attr_get _ k dflt = Inl AttributeError"

definition then_get :: "exn + json \<Rightarrow> string \<Rightarrow> json \<Rightarrow> exn + json" where
  "then_get r k dflt = (case r of Inl e \<Rightarrow> Inl e | Inr j \<Rightarrow> attr_get j k dflt)"

text \<open>
  \<^verbatim>\<open>str(x)\<close>, which an f-string applies to an interpolated value. A string is itself,
  an integer its decimal digits; a container is written as Python writes it, without the
  escapes inside quoted strings.
\<close>

function str_nat :: "nat \<Rightarrow> string" where
  "str_nat n =
     (if n < 10 then [''0123456789'' ! n]
      else str_nat (n div 10) @ [''0123456789'' ! (n mod 10)])"
  by pat_completeness auto
termination
  by (relation "measure id") auto

declare str_nat.simps [simp del]

definition str_int :: "int \<Rightarrow> string" where
  "str_int i = (if i < 0 then ''-'' @ str_nat (nat (- i)) else str_nat (nat i))"

fun join :: "string \<Rightarrow> string list \<Rightarrow> string" where
  "join sep [] = []"
| "join sep [x] = x"
| "join sep (x # y # ys) = x @ sep @ join sep (y # ys)"

fun py_repr :: "json \<Rightarrow> string" where
  "py_repr JNull = ''None''"
| "py_repr (JBool b) = (if b then ''True'' else ''False'')"
| "py_repr (JNum n) = str_int n"
| "py_repr (JStr s) = [CHR 0x27] @ s @ [CHR 0x27]"
| "py_repr (JArr xs) = ''['' @ join '', '' (map py_repr xs) @ '']''"
| "py_repr (JObj kvs) =
     ''{'' @ join '', ''
        (map (\<lambda>kv. [CHR 0x27] @ fst kv @ [CHR 0x27] @ '': '' @ py_repr (snd kv)) kvs) @ ''}''"

definition py_str :: "json \<Rightarrow> string" where
  "py_str j = (case j of JStr s \<Rightarrow> s | _ \<Rightarrow> py_repr j)"

section \<open>models.py\<close>

type_synonym time = nat

record account =
  acc_pk :: nat
  acc_user :: nat
  acc_platform :: string
  account_id :: string
  account_name :: string
  access_token :: string
  is_active :: bool

datatype status = Draft | Scheduled | Published | Failed

record post =
  post_pk :: nat
  post_user :: nat
  content :: string
  platforms :: "string list"
  status :: status
  scheduled_date :: "time option"
  published_date :: "time option"

text \<open>
  A \<^verbatim>\<open>PostPublication\<close> row. The foreign key to the post is the post's primary key;
  the foreign key to the account is represented by the referenced row, so that
  \<^verbatim>\<open>publication.account.platform\<close> reads as in the source. The fields hold the Python
  values assigned to them.
\<close>

record publication =
  pub_post :: nat
  pub_account :: account
  platform_post_id :: json
  published_at :: "time option"
  error_message :: json
  is_success :: bool

text \<open>\<^verbatim>\<open>unique_together = ['post', 'account']\<close>: the key of a row.\<close>

definition pub_key :: "publication \<Rightarrow> nat \<times> nat" where
  "pub_key p = (pub_post p, acc_pk (pub_account p))"

section \<open>services/social media service.py\<close>

datatype http_method = GET | POST | DELETE

text \<open>The arguments of \<^verbatim>\<open>requests.request(method, url, **kwargs)\<close>; an absent keyword is \<open>[]\<close>.\<close>

record request =
  req_method :: http_method
  req_url :: string
  req_headers :: pydict
  req_params :: pydict
  req_data :: pydict
  req_json :: pydict
  req_files :: pydict

definition mk_request :: "http_method \<Rightarrow> string \<Rightarrow> request" where
  "mk_request m u = \<lparr>req_method = m, req_url = u, req_headers = [], req_params = [],
     req_data = [], req_json = [], req_files = []\<rparr>"

text \<open>
  What the three statements in the \<^verbatim>\<open>try\<close> block of \<^verbatim>\<open>_make_request\<close> come to:
  the decoded body, a dictionary as the return annotation says, or a
  \<^verbatim>\<open>RequestException\<close> with its message. The exception is a connection error of
  \<^verbatim>\<open>requests.request\<close>, the \<^verbatim>\<open>HTTPError\<close> of \<^verbatim>\<open>raise_for_status\<close> on a 4xx or 5xx
  status, or the decoding error of \<^verbatim>\<open>response.json()\<close>.
\<close>

datatype http_outcome = Response pydict | RequestFailed string

text \<open>\<^verbatim>\<open>requests.get(media_url)\<close>: a response with status code and content, or an exception.\<close>

datatype download_outcome = Downloaded nat string | DownloadFailed string

text \<open>
  What a call reads from outside and does not write: the account table, the remote
  platforms (a response for each request; equal requests of one call are answered
  alike), the media host, and the clock (\<^verbatim>\<open>timezone.now()\<close>, one reading for the
  call). Two calls in a row are given an environment each.
\<close>

record env =
  accounts :: "account list"
  http :: "request \<Rightarrow> http_outcome"
  download :: "string \<Rightarrow> download_outcome"
  now :: time

definition make_request :: "env \<Rightarrow> request \<Rightarrow> pydict" where
  "make_request e req =
     (case http e req of
        Response body \<Rightarrow> body
      | RequestFailed msg \<Rightarrow> [(''error'', JStr msg)])"

record config =
  BASE_URL :: string
  API_VERSION :: string

definition FACEBOOK :: config where
  "FACEBOOK = \<lparr>BASE_URL = ''https://graph.facebook.com/'', API_VERSION = ''v18.0''\<rparr>"

definition TWITTER :: config where
  "TWITTER = \<lparr>BASE_URL = ''https://api.twitter.com/2/'', API_VERSION = ''2''\<rparr>"

definition LINKEDIN :: config where
  "LINKEDIN = \<lparr>BASE_URL = ''https://api.linkedin.com/v2/'', API_VERSION = ''v2''\<rparr>"

text \<open>
  The upload loop the three \<^verbatim>\<open>create_post\<close> methods share:
  \<^verbatim>\<open>for media_url in media_urls: m = self._upload_media(media_url); if m: ms.append(m)\<close>.
  An exception of an upload leaves the loop.
\<close>

fun upload_loop :: "(string \<Rightarrow> exn + json) \<Rightarrow> string list \<Rightarrow> json list \<Rightarrow> exn + json list" where
  "upload_loop up [] ms = Inr ms"
| "upload_loop up (u # us) ms =
     (case up u of
        Inl e \<Rightarrow> Inl e
      | Inr m \<Rightarrow> upload_loop up us (if truthy m then ms @ [m] else ms))"

subsection \<open>FacebookAPI\<close>

definition FacebookAPI_upload_media :: "env \<Rightarrow> account \<Rightarrow> string \<Rightarrow> json" where
  "FacebookAPI_upload_media e acct media_url =
     (let url = BASE_URL FACEBOOK @ ''/'' @ API_VERSION FACEBOOK @ ''/'' @ account_id acct @ ''/photos'';
          data = [(''url'', JStr media_url), (''published'', JStr ''false''),
                  (''access_token'', JStr (access_token acct))];
          result = make_request e ((mk_request POST url)\<lparr>req_data := data\<rparr>)
      in if \<not> has_key result ''error'' then dict_get result ''id'' JNull else JNull)"

text \<open>
  \<^verbatim>\<open>media_urls\<close> is a list; \<^verbatim>\<open>None\<close> and \<^verbatim>\<open>[]\<close> both fail the test \<^verbatim>\<open>if media_urls:\<close>
  and are the empty list here. The text that \<^verbatim>\<open>json.dumps\<close> produces for
  \<^verbatim>\<open>attached_media\<close> is represented by the value it encodes.
\<close>

definition FacebookAPI_create_post :: "env \<Rightarrow> account \<Rightarrow> string \<Rightarrow> string list \<Rightarrow> exn + pydict" where
  "FacebookAPI_create_post e acct text media_urls =
     (let url = BASE_URL FACEBOOK @ ''/'' @ API_VERSION FACEBOOK @ ''/'' @ account_id acct @ ''/feed'';
          data = [(''message'', JStr text), (''access_token'', JStr (access_token acct))]
      in case (if media_urls \<noteq> []
               then upload_loop (\<lambda>u. Inr (FacebookAPI_upload_media e acct u)) media_urls []
               else Inr []) of
           Inl ex \<Rightarrow> Inl ex
         | Inr media_ids \<Rightarrow>
             Inr (make_request e ((mk_request POST url)\<lparr>req_data :=
               (if media_ids \<noteq> []
                then dict_set ''attached_media''
                       (JArr (map (\<lambda>mid. JObj [(''media_fbid'', mid)]) media_ids)) data
                else data)\<rparr>)))"

definition FacebookAPI_delete_post :: "env \<Rightarrow> account \<Rightarrow> json \<Rightarrow> bool" where
  "FacebookAPI_delete_post e acct pid =
     (let url = BASE_URL FACEBOOK @ ''/'' @ API_VERSION FACEBOOK @ ''/'' @ py_str pid;
          params = [(''access_token'', JStr (access_token acct))];
          result = make_request e ((mk_request DELETE url)\<lparr>req_params := params\<rparr>)
      in \<not> has_key result ''error'')"

subsection \<open>TwitterAPI\<close>

definition bearer :: "account \<Rightarrow> json" where
  "bearer acct = JStr (''Bearer '' @ access_token acct)"

definition TwitterAPI_upload_media :: "env \<Rightarrow> account \<Rightarrow> string \<Rightarrow> exn + json" where
  "TwitterAPI_upload_media e acct media_url =
     (let upload_url = ''https://upload.twitter.com/1.1/media/upload.json'';
          headers = [(''Authorization'', bearer acct)]
      in case download e media_url of
           DownloadFailed msg \<Rightarrow> Inl (RequestException msg)
         | Downloaded status_code body \<Rightarrow>
             if status_code \<noteq> 200 then Inr JNull
             else
               (let files = [(''media'', JStr body)];
                    result = make_request e
                      ((mk_request POST upload_url)\<lparr>req_headers := headers, req_files := files\<rparr>)
                in Inr (if \<not> has_key result ''error''
                        then dict_get result ''media_id_string'' JNull else JNull)))"

definition TwitterAPI_create_post :: "env \<Rightarrow> account \<Rightarrow> string \<Rightarrow> string list \<Rightarrow> exn + pydict" where
  "TwitterAPI_create_post e acct text media_urls =
     (let url = BASE_URL TWITTER @ ''/tweets'';
          headers = [(''Authorization'', bearer acct), (''Content-Type'', JStr ''application/json'')];
          data = [(''text'', JStr text)]
      in case (if media_urls \<noteq> []
               then upload_loop (TwitterAPI_upload_media e acct) media_urls []
               else Inr []) of
           Inl ex \<Rightarrow> Inl ex
         | Inr media_ids \<Rightarrow>
             Inr (make_request e ((mk_request POST url)\<lparr>req_headers := headers, req_json :=
               (if media_ids \<noteq> []
                then dict_set ''media'' (JObj [(''media_ids'', JArr media_ids)]) data
                else data)\<rparr>)))"

definition TwitterAPI_delete_post :: "env \<Rightarrow> account \<Rightarrow> json \<Rightarrow> bool" where
  "TwitterAPI_delete_post e acct pid =
     (let url = BASE_URL TWITTER @ ''/tweets/'' @ py_str pid;
          headers = [(''Authorization'', bearer acct)];
          result = make_request e ((mk_request DELETE url)\<lparr>req_headers := headers\<rparr>)
      in \<not> has_key result ''error'')"

subsection \<open>LinkedInAPI\<close>

definition LinkedInAPI_upload_media :: "env \<Rightarrow> account \<Rightarrow> string \<Rightarrow> exn + json" where
  "LinkedInAPI_upload_media e acct media_url =
     (let register_url = BASE_URL LINKEDIN @ ''/assets?action=registerUpload'';
          headers = [(''Authorization'', bearer acct), (''Content-Type'', JStr ''application/json'')];
          register_data = [(''registerUploadRequest'', JObj
             [(''recipes'', JArr [JStr ''urn:li:digitalmediaRecipe:feedshare-image'']),
              (''owner'', JStr (''urn:li:person:'' @ account_id acct)),
              (''serviceRelationships'', JArr [JObj
                 [(''relationshipType'', JStr ''OWNER''),
                  (''identifier'', JStr ''urn:li:userGeneratedContent'')]])])];
          result = make_request e
            ((mk_request POST register_url)\<lparr>req_headers := headers, req_json := register_data\<rparr>)
      in if has_key result ''error'' then Inr JNull
         else
           (case attr_get (dict_get result ''value'' (JObj [])) ''asset'' (JStr []) of
              Inl ex \<Rightarrow> Inl ex
            | Inr asset \<Rightarrow>
                Inr (JObj [(''status'', JStr ''READY''),
                           (''description'', JObj [(''text'', JStr ''Uploaded media'')]),
                           (''media'', asset)])))"

definition share_content :: "string \<Rightarrow> json list \<Rightarrow> pydict" where
  "share_content text media_assets =
     (let base = [(''shareCommentary'', JObj [(''text'', JStr text)]),
                  (''shareMediaCategory'', JStr ''NONE'')]
      in if media_assets \<noteq> []
         then dict_set ''media'' (JArr media_assets)
                (dict_set ''shareMediaCategory'' (JStr ''IMAGE'') base)
         else base)"

definition LinkedInAPI_create_post :: "env \<Rightarrow> account \<Rightarrow> string \<Rightarrow> string list \<Rightarrow> exn + pydict" where
  "LinkedInAPI_create_post e acct text media_urls =
     (let url = BASE_URL LINKEDIN @ ''/ugcPosts'';
          headers = [(''Authorization'', bearer acct), (''Content-Type'', JStr ''application/json'')]
      in case (if media_urls \<noteq> []
               then upload_loop (LinkedInAPI_upload_media e acct) media_urls []
               else Inr []) of
           Inl ex \<Rightarrow> Inl ex
         | Inr media_assets \<Rightarrow>
             Inr (make_request e ((mk_request POST url)\<lparr>req_headers := headers, req_json :=
               [(''author'', JStr (''urn:li:person:'' @ account_id acct)),
                (''lifecycleState'', JStr ''PUBLISHED''),
                (''specificContent'', JObj
                   [(''com.linkedin.ugc.ShareContent'', JObj (share_content text media_assets))]),
                (''visibility'', JObj
                   [(''com.linkedin.ugc.MemberNetworkVisibility'', JStr ''PUBLIC'')])]\<rparr>)))"

definition LinkedInAPI_delete_post :: "env \<Rightarrow> account \<Rightarrow> json \<Rightarrow> bool" where
  "LinkedInAPI_delete_post e acct pid =
     (let url = BASE_URL LINKEDIN @ ''/ugcPosts/'' @ py_str pid;
          headers = [(''Authorization'', bearer acct)];
          result = make_request e ((mk_request DELETE url)\<lparr>req_headers := headers\<rparr>)
      in \<not> has_key result ''error'')"

subsection \<open>get post analytics of the three adapters\<close>

text \<open>
  Each returns the analytics dictionary, the empty dictionary when the platform gave
  nothing, or the exception of a \<^verbatim>\<open>.get\<close> on a value that is no dictionary.
\<close>

definition FacebookAPI_get_post_analytics :: "env \<Rightarrow> account \<Rightarrow> json \<Rightarrow> exn + pydict" where
  "FacebookAPI_get_post_analytics e acct pid =
     (let url = BASE_URL FACEBOOK @ ''/'' @ API_VERSION FACEBOOK @ ''/'' @ py_str pid;
          params = [(''fields'', JStr ''reactions.summary(true),comments.summary(true),shares''),
                    (''access_token'', JStr (access_token acct))];
          result = make_request e ((mk_request GET url)\<lparr>req_params := params\<rparr>)
      in if has_key result ''error'' then Inr []
         else
           (case then_get (attr_get (dict_get result ''reactions'' (JObj [])) ''summary'' (JObj []))
                   ''total_count'' (JNum 0) of
              Inl ex \<Rightarrow> Inl ex
            | Inr likes \<Rightarrow>
           (case then_get (attr_get (dict_get result ''comments'' (JObj [])) ''summary'' (JObj []))
                   ''total_count'' (JNum 0) of
              Inl ex \<Rightarrow> Inl ex
            | Inr comments \<Rightarrow>
           (case attr_get (dict_get result ''shares'' (JObj [])) ''count'' (JNum 0) of
              Inl ex \<Rightarrow> Inl ex
            | Inr shares \<Rightarrow>
                Inr [(''likes'', likes), (''comments'', comments), (''shares'', shares),
                     (''raw_data'', JObj result)]))))"

definition TwitterAPI_get_post_analytics :: "env \<Rightarrow> account \<Rightarrow> json \<Rightarrow> exn + pydict" where
  "TwitterAPI_get_post_analytics e acct pid =
     (let url = BASE_URL TWITTER @ ''/tweets/'' @ py_str pid;
          headers = [(''Authorization'', bearer acct)];
          params = [(''tweet.fields'', JStr ''public_metrics,created_at''),
                    (''expansions'', JStr ''author_id'')];
          result = make_request e
            ((mk_request GET url)\<lparr>req_headers := headers, req_params := params\<rparr>)
      in if has_key result ''error'' then Inr []
         else if \<not> has_key result ''data'' then Inr []
         else
           (case attr_get (dict_get result ''data'' JNull) ''public_metrics'' (JObj []) of
              Inl ex \<Rightarrow> Inl ex
            | Inr metrics \<Rightarrow>
           (case attr_get metrics ''like_count'' (JNum 0) of
              Inl ex \<Rightarrow> Inl ex
            | Inr likes \<Rightarrow>
           (case attr_get metrics ''reply_count'' (JNum 0) of
              Inl ex \<Rightarrow> Inl ex
            | Inr comments \<Rightarrow>
           (case attr_get metrics ''retweet_count'' (JNum 0) of
              Inl ex \<Rightarrow> Inl ex
            | Inr shares \<Rightarrow>
           (case attr_get metrics ''impression_count'' (JNum 0) of
              Inl ex \<Rightarrow> Inl ex
            | Inr impressions \<Rightarrow>
                Inr [(''likes'', likes), (''comments'', comments), (''shares'', shares),
                     (''impressions'', impressions), (''raw_data'', JObj result)]))))))"

definition LinkedInAPI_get_post_analytics :: "env \<Rightarrow> account \<Rightarrow> json \<Rightarrow> exn + pydict" where
  "LinkedInAPI_get_post_analytics e acct pid =
     (let url = BASE_URL LINKEDIN @ ''/socialActions/'' @ py_str pid;
          headers = [(''Authorization'', bearer acct)];
          result = make_request e ((mk_request GET url)\<lparr>req_headers := headers\<rparr>)
      in if has_key result ''error'' then Inr []
         else Inr [(''likes'', dict_get result ''numLikes'' (JNum 0)),
                   (''comments'', dict_get result ''numComments'' (JNum 0)),
                   (''shares'', dict_get result ''numShares'' (JNum 0)),
                   (''raw_data'', JObj result)])"

section \<open>services/post service.py\<close>

datatype api_class = FacebookAPI | TwitterAPI | LinkedInAPI

text \<open>\<^verbatim>\<open>API_CLASSES.get(platform)\<close>.\<close>

definition API_CLASSES :: "string \<Rightarrow> api_class option" where
  "API_CLASSES platform =
     (if platform = ''facebook'' then Some FacebookAPI
      else if platform = ''twitter'' then Some TwitterAPI
      else if platform = ''linkedin'' then Some LinkedInAPI
      else None)"

fun create_post :: "api_class \<Rightarrow> env \<Rightarrow> account \<Rightarrow> string \<Rightarrow> string list \<Rightarrow> exn + pydict" where
  "create_post FacebookAPI = FacebookAPI_create_post"
| "create_post TwitterAPI = TwitterAPI_create_post"
| "create_post LinkedInAPI = LinkedInAPI_create_post"

fun delete_post :: "api_class \<Rightarrow> env \<Rightarrow> account \<Rightarrow> json \<Rightarrow> bool" where
  "delete_post FacebookAPI = FacebookAPI_delete_post"
| "delete_post TwitterAPI = TwitterAPI_delete_post"
| "delete_post LinkedInAPI = LinkedInAPI_delete_post"

fun adapter_get_post_analytics :: "api_class \<Rightarrow> env \<Rightarrow> account \<Rightarrow> json \<Rightarrow> exn + pydict" where
  "adapter_get_post_analytics FacebookAPI = FacebookAPI_get_post_analytics"
| "adapter_get_post_analytics TwitterAPI = TwitterAPI_get_post_analytics"
| "adapter_get_post_analytics LinkedInAPI = LinkedInAPI_get_post_analytics"

text \<open>\<^verbatim>\<open>_upload_media\<close> of each adapter; the Facebook one raises nothing.\<close>

fun upload_media :: "api_class \<Rightarrow> env \<Rightarrow> account \<Rightarrow> string \<Rightarrow> exn + json" where
  "upload_media FacebookAPI e acct u = Inr (FacebookAPI_upload_media e acct u)"
| "upload_media TwitterAPI e acct u = TwitterAPI_upload_media e acct u"
| "upload_media LinkedInAPI e acct u = LinkedInAPI_upload_media e acct u"

text \<open>\<^verbatim>\<open>SocialMediaAccount.objects.get(user=..., platform=..., is_active=True)\<close>.\<close>

definition objects_get :: "account list \<Rightarrow> nat \<Rightarrow> string \<Rightarrow> exn + account" where
  "objects_get accts u platform =
     (case filter (\<lambda>a. acc_user a = u \<and> acc_platform a = platform \<and> is_active a) accts of
        [] \<Rightarrow> Inl DoesNotExist
      | [a] \<Rightarrow> Inr a
      | _ \<Rightarrow> Inl MultipleObjectsReturned)"

text \<open>
  \<^verbatim>\<open>PostPublication.objects.create(...)\<close>: an insert, which the uniqueness constraint on
  (post, account) rejects when a row with the same key is there.
\<close>

definition objects_create :: "publication list \<Rightarrow> publication \<Rightarrow> exn + publication list" where
  "objects_create pubs p =
     (if pub_key p \<in> set (map pub_key pubs) then Inl IntegrityError else Inr (pubs @ [p]))"

text \<open>
  The body of the \<^verbatim>\<open>try\<close> block for one platform: the outcome stored in \<^verbatim>\<open>results\<close>
  and the publication table after it, or the exception that left the block.
\<close>

definition publish_platform ::
  "env \<Rightarrow> post \<Rightarrow> string list \<Rightarrow> publication list \<Rightarrow> string \<Rightarrow> exn + (pydict \<times> publication list)" where
  "publish_platform e p media_urls pubs platform =
     (case objects_get (accounts e) (post_user p) platform of
        Inl ex \<Rightarrow> Inl ex
      | Inr acct \<Rightarrow>
          (case API_CLASSES platform of
             None \<Rightarrow> Inr ([(''error'', JStr (''Platform '' @ platform @ '' not supported''))], pubs)
           | Some cls \<Rightarrow>
               (case create_post cls e acct (content p) media_urls of
                  Inl ex \<Rightarrow> Inl ex
                | Inr result \<Rightarrow>
                    (let pub = \<lparr>pub_post = post_pk p, pub_account = acct,
                                platform_post_id = dict_get result ''id'' (JStr []),
                                published_at = (if \<not> has_key result ''error'' then Some (now e) else None),
                                error_message = dict_get result ''error'' (JStr []),
                                is_success = (\<not> has_key result ''error'')\<rparr>
                     in case objects_create pubs pub of
                          Inl ex \<Rightarrow> Inl ex
                        | Inr pubs' \<Rightarrow>
                            Inr ([(''success'', JBool (is_success pub)),
                                  (''post_id'', platform_post_id pub),
                                  (''error'', error_message pub)], pubs')))))"

text \<open>The \<^verbatim>\<open>for platform in post.platforms\<close> loop with its two handlers.\<close>

fun publish_loop ::
  "env \<Rightarrow> post \<Rightarrow> string list \<Rightarrow> string list \<Rightarrow> (string \<times> pydict) list \<Rightarrow> publication list
     \<Rightarrow> (string \<times> pydict) list \<times> publication list" where
  "publish_loop e p media_urls [] results pubs = (results, pubs)"
| "publish_loop e p media_urls (platform # rest) results pubs =
     (case publish_platform e p media_urls pubs platform of
        Inl DoesNotExist \<Rightarrow>
          publish_loop e p media_urls rest
            (dict_set platform [(''error'', JStr (''No active '' @ platform @ '' account found''))] results)
            pubs
      | Inl ex \<Rightarrow>
          publish_loop e p media_urls rest
            (dict_set platform [(''error'', JStr (str_exn ex))] results) pubs
      | Inr (outcome, pubs') \<Rightarrow>
          publish_loop e p media_urls rest (dict_set platform outcome results) pubs')"

text \<open>\<^verbatim>\<open>[p for p, r in results.items() if r.get('success')]\<close>.\<close>

definition successful_platforms :: "(string \<times> pydict) list \<Rightarrow> string list" where
  "successful_platforms results =
     map fst (filter (\<lambda>pr. truthy (dict_get (snd pr) ''success'' JNull)) results)"

text \<open>
  \<^verbatim>\<open>PostService.publish_post\<close>: the returned \<^verbatim>\<open>results\<close>, the post as saved, and the
  publication table. \<^verbatim>\<open>post.save()\<close> is taken to succeed.
\<close>

definition publish_post ::
  "env \<Rightarrow> post \<Rightarrow> string list \<Rightarrow> publication list
     \<Rightarrow> (string \<times> pydict) list \<times> post \<times> publication list" where
  "publish_post e p media_urls pubs =
     (case publish_loop e p media_urls (platforms p) [] pubs of
        (results, pubs') \<Rightarrow>
          (results,
           (if successful_platforms results \<noteq> []
            then p\<lparr>status := Published, published_date := Some (now e)\<rparr>
            else p\<lparr>status := Failed\<rparr>),
           pubs'))"

subsection \<open>PostService.get post analytics\<close>

text \<open>
  The \<^verbatim>\<open>PostAnalytics\<close> table: one row for a publication (\<^verbatim>\<open>OneToOneField\<close>), found by
  the publication's key. A row is the dictionary of its fields; the column types are not
  enforced here.
\<close>

type_synonym analytics_table = "nat \<times> nat \<Rightarrow> pydict option"

definition PostAnalytics_defaults :: pydict where
  "PostAnalytics_defaults =
     [(''likes'', JNum 0), (''comments'', JNum 0), (''shares'', JNum 0),
      (''impressions'', JNum 0), (''reach'', JNum 0), (''clicks'', JNum 0),
      (''raw_data'', JObj [])]"

text \<open>\<^verbatim>\<open>for key, value in platform_analytics.items(): if key != 'raw_data': setattr(...)\<close>.\<close>

fun set_attrs :: "pydict \<Rightarrow> pydict \<Rightarrow> pydict" where
  "set_attrs [] row = row"
| "set_attrs ((k, v) # kvs) row =
     set_attrs kvs (if k \<noteq> ''raw_data'' then dict_set k v row else row)"

text \<open>
  \<^verbatim>\<open>get_or_create(publication=publication, defaults=platform_analytics)\<close> and the update of
  a row that was there; \<^verbatim>\<open>last_updated\<close> has \<^verbatim>\<open>auto_now\<close> and is written at each save.
\<close>

definition store_analytics :: "env \<Rightarrow> analytics_table \<Rightarrow> nat \<times> nat \<Rightarrow> pydict \<Rightarrow> analytics_table" where
  "store_analytics e tab k platform_analytics =
     (case tab k of
        None \<Rightarrow>
          tab(k \<mapsto> dict_set ''last_updated'' (JNum (int (now e)))
                     (fold (\<lambda>kv row. dict_set (fst kv) (snd kv) row) platform_analytics
                        PostAnalytics_defaults))
      | Some post_analytics \<Rightarrow>
          tab(k \<mapsto> dict_set ''last_updated'' (JNum (int (now e)))
                     (dict_set ''raw_data'' (dict_get platform_analytics ''raw_data'' (JObj []))
                        (set_attrs platform_analytics post_analytics))))"

text \<open>
  The loop over \<^verbatim>\<open>post.publications.filter(is_success=True)\<close>, given the rows it ranges
  over: the \<^verbatim>\<open>analytics\<close> dictionary and the table.
\<close>

fun analytics_loop ::
  "env \<Rightarrow> publication list \<Rightarrow> (string \<times> pydict) list \<Rightarrow> analytics_table
     \<Rightarrow> (string \<times> pydict) list \<times> analytics_table" where
  "analytics_loop e [] analytics tab = (analytics, tab)"
| "analytics_loop e (pub # rest) analytics tab =
     (case API_CLASSES (acc_platform (pub_account pub)) of
        None \<Rightarrow> analytics_loop e rest analytics tab
      | Some cls \<Rightarrow>
          (case adapter_get_post_analytics cls e (pub_account pub) (platform_post_id pub) of
             Inl ex \<Rightarrow>
               analytics_loop e rest
                 (dict_set (acc_platform (pub_account pub)) [(''error'', JStr (str_exn ex))] analytics)
                 tab
           | Inr platform_analytics \<Rightarrow>
               if platform_analytics \<noteq> []
               then analytics_loop e rest
                      (dict_set (acc_platform (pub_account pub)) platform_analytics analytics)
                      (store_analytics e tab (pub_key pub) platform_analytics)
               else analytics_loop e rest analytics tab))"

definition get_post_analytics ::
  "env \<Rightarrow> post \<Rightarrow> publication list \<Rightarrow> analytics_table
     \<Rightarrow> (string \<times> pydict) list \<times> analytics_table" where
  "get_post_analytics e p pubs tab =
     analytics_loop e (filter (\<lambda>pub. pub_post pub = post_pk p \<and> is_success pub) pubs) [] tab"

section \<open>Requests and results the properties speak of\<close>

text \<open>The request that \<^verbatim>\<open>delete_post\<close> of each adapter sends.\<close>

definition delete_request :: "api_class \<Rightarrow> account \<Rightarrow> json \<Rightarrow> request" where
  "delete_request cls acct pid =
     (case cls of
        FacebookAPI \<Rightarrow>
          (mk_request DELETE (BASE_URL FACEBOOK @ ''/'' @ API_VERSION FACEBOOK @ ''/'' @ py_str pid))
            \<lparr>req_params := [(''access_token'', JStr (access_token acct))]\<rparr>
      | TwitterAPI \<Rightarrow>
          (mk_request DELETE (BASE_URL TWITTER @ ''/tweets/'' @ py_str pid))
            \<lparr>req_headers := [(''Authorization'', bearer acct)]\<rparr>
      | LinkedInAPI \<Rightarrow>
          (mk_request DELETE (BASE_URL LINKEDIN @ ''/ugcPosts/'' @ py_str pid))
            \<lparr>req_headers := [(''Authorization'', bearer acct)]\<rparr>)"

text \<open>
  The test \<^verbatim>\<open>if platform_analytics:\<close> of \<^verbatim>\<open>PostService.get_post_analytics\<close> for one
  publication: an adapter is registered, it returned, and its result is not empty.
\<close>

definition adapter_result_nonempty :: "env \<Rightarrow> publication \<Rightarrow> bool" where
  "adapter_result_nonempty e pub =
     (case API_CLASSES (acc_platform (pub_account pub)) of
        None \<Rightarrow> False
      | Some cls \<Rightarrow>
          (case adapter_get_post_analytics cls e (pub_account pub) (platform_post_id pub) of
             Inl ex \<Rightarrow> False
           | Inr platform_analytics \<Rightarrow> platform_analytics \<noteq> []))"

section \<open>Concrete accounts, posts and environments\<close>

definition fb_account :: account where
  "fb_account = \<lparr>acc_pk = 1, acc_user = 7, acc_platform = ''facebook'', account_id = ''page1'',
     account_name = ''Page'', access_token = ''tokF'', is_active = True\<rparr>"

definition tw_account :: account where
  "tw_account = \<lparr>acc_pk = 2, acc_user = 7, acc_platform = ''twitter'', account_id = ''tw1'',
     account_name = ''Handle'', access_token = ''tokT'', is_active = True\<rparr>"

definition draft_post :: "string list \<Rightarrow> post" where
  "draft_post ps = \<lparr>post_pk = 10, post_user = 7, content = ''hello'', platforms = ps,
     status = Draft, scheduled_date = None, published_date = None\<rparr>"

text \<open>Every request is answered with the given outcome; no media host is reachable.\<close>

definition env_const :: "account list \<Rightarrow> http_outcome \<Rightarrow> time \<Rightarrow> env" where
  "env_const accts answer t =
     \<lparr>accounts = accts, http = (\<lambda>r. answer), download = (\<lambda>u. DownloadFailed ''connection refused''),
      now = t\<rparr>"

text \<open>Facebook accepts the post as \<open>fb123\<close>; every other request is refused as rate-limited.\<close>

definition env_fb_ok_tw_limited :: env where
  "env_fb_ok_tw_limited =
     \<lparr>accounts = [fb_account, tw_account],
      http = (\<lambda>r. if req_url r = ''https://graph.facebook.com//v18.0/page1/feed''
                  then Response [(''id'', JStr ''fb123'')] else RequestFailed ''rate limited''),
      download = (\<lambda>u. DownloadFailed ''connection refused''),
      now = 100\<rparr>"

text \<open>
  Facebook accepts exactly the text-only post (the form data has the message and the
  token and nothing else) and refuses every other request, the photo uploads among them.
\<close>

definition env_fb_text_only :: env where
  "env_fb_text_only =
     \<lparr>accounts = [fb_account],
      http = (\<lambda>r. if r = (mk_request POST ''https://graph.facebook.com//v18.0/page1/feed'')
                          \<lparr>req_data := [(''message'', JStr ''hello''),
                                         (''access_token'', JStr ''tokF'')]\<rparr>
                  then Response [(''id'', JStr ''fb123'')] else RequestFailed ''upload refused''),
      download = (\<lambda>u. DownloadFailed ''connection refused''),
      now = 100\<rparr>"

text \<open>The body that Twitter's API v2 returns for a created tweet: the id is under \<open>data\<close>.\<close>

definition twitter_created :: pydict where
  "twitter_created = [(''data'', JObj [(''id'', JStr ''1445880548472328192''), (''text'', JStr ''hello'')])]"

text \<open>
  Publish with only a Facebook account, then again after a Twitter account was connected.
\<close>

definition first_publish :: "(string \<times> pydict) list \<times> post \<times> publication list" where
  "first_publish =
     publish_post (env_const [fb_account] (Response [(''id'', JStr ''fb123'')]) 100)
       (draft_post [''facebook'', ''twitter'']) [] []"

definition second_publish :: "(string \<times> pydict) list \<times> post \<times> publication list" where
  "second_publish =
     publish_post (env_const [fb_account, tw_account] (Response [(''id'', JStr ''tw456'')]) 200)
       (fst (snd first_publish)) [] (snd (snd first_publish))"

text \<open>Publish to Facebook and fail; publish again and have Facebook accept the post.\<close>

definition failed_publish :: "(string \<times> pydict) list \<times> post \<times> publication list" where
  "failed_publish =
     publish_post (env_const [fb_account] (RequestFailed ''rate limited'') 100)
       (draft_post [''facebook'']) [] []"

definition republish :: "(string \<times> pydict) list \<times> post \<times> publication list" where
  "republish =
     publish_post (env_const [fb_account] (Response [(''id'', JStr ''fb123'')]) 200)
       (fst (snd failed_publish)) [] (snd (snd failed_publish))"

text \<open>
  Attempts of one post (the LinkedIn one, further down, failed) and the snapshot stored
  for the Twitter one. Facebook answers the analytics query; every other request fails.
\<close>

definition fb_attempt :: publication where
  "fb_attempt = \<lparr>pub_post = 10, pub_account = fb_account, platform_post_id = JStr ''fb123'',
     published_at = Some 100, error_message = JStr [], is_success = True\<rparr>"

definition tw_attempt :: publication where
  "tw_attempt = \<lparr>pub_post = 10, pub_account = tw_account, platform_post_id = JStr ''tw456'',
     published_at = Some 100, error_message = JStr [], is_success = True\<rparr>"

definition tw_snapshot :: pydict where
  "tw_snapshot = dict_set ''likes'' (JNum 10) PostAnalytics_defaults"

definition env_analytics :: env where
  "env_analytics =
     \<lparr>accounts = [fb_account, tw_account],
      http = (\<lambda>r. if req_url r = ''https://graph.facebook.com//v18.0/fb123''
                  then Response [(''reactions'', JObj [(''summary'', JObj [(''total_count'', JNum 5)])])]
                  else RequestFailed ''service unavailable''),
      download = (\<lambda>u. DownloadFailed ''connection refused''),
      now = 300\<rparr>"

text \<open>
  Four target platforms with a media item: no LinkedIn account, Twitter's media download
  raises, Facebook accepts, Instagram has an account and no adapter.
\<close>

definition ig_account :: account where
  "ig_account = \<lparr>acc_pk = 3, acc_user = 7, acc_platform = ''instagram'', account_id = ''ig1'',
     account_name = ''Gram'', access_token = ''tokI'', is_active = True\<rparr>"

definition mixed_publish :: "(string \<times> pydict) list \<times> post \<times> publication list" where
  "mixed_publish =
     publish_post (env_const [fb_account, tw_account, ig_account] (Response [(''id'', JStr ''fb123'')]) 100)
       (draft_post [''linkedin'', ''twitter'', ''facebook'', ''instagram'']) [''http://img/a.png''] []"

definition li_account :: account where
  "li_account = \<lparr>acc_pk = 4, acc_user = 7, acc_platform = ''linkedin'', account_id = ''li1'',
     account_name = ''Member'', access_token = ''tokL'', is_active = True\<rparr>"

definition li_attempt :: publication where
  "li_attempt = \<lparr>pub_post = 10, pub_account = li_account, platform_post_id = JStr [],
     published_at = None, error_message = JStr ''rate limited'', is_success = False\<rparr>"

section \<open>Properties of publish post\<close>

lemma publish_loop_keys:
  "fst ` set (fst (publish_loop e p m ps results pubs)) = set ps \<union> fst ` set results"
  by (induction ps arbitrary: results pubs)
     (auto simp: dict_set_def dom_update split: sum.splits exn.splits prod.splits)

lemma publish_loop_distinct:
  "distinct (map fst results) \<Longrightarrow> distinct (map fst (fst (publish_loop e p m ps results pubs)))"
  by (induction ps arbitrary: results pubs)
     (auto simp: dict_set_def distinct_update split: sum.splits exn.splits prod.splits)

lemma publish_post_results:
  "fst (publish_post e p m pubs) = fst (publish_loop e p m (platforms p) [] pubs)"
  by (simp add: publish_post_def split: prod.splits)

lemma publish_post_collapse:
  "publish_post e p m pubs =
     (fst (publish_post e p m pubs), fst (snd (publish_post e p m pubs)),
      snd (snd (publish_post e p m pubs)))"
  by simp

lemma successful_platforms_iff:
  "successful_platforms results \<noteq> [] \<longleftrightarrow>
   (\<exists>r \<in> snd ` set results. truthy (dict_get r ''success'' JNull))"
  by (auto simp: successful_platforms_def filter_empty_conv)

lemma publish_platform_pubs:
  assumes "publish_platform e p m pubs pl = Inr (out, pubs')"
  shows "pubs' = pubs \<or> (\<exists>pub. pubs' = pubs @ [pub] \<and> pub_key pub \<notin> set (map pub_key pubs))"
  using assms
  by (auto simp: publish_platform_def objects_create_def Let_def
           split: sum.splits option.splits if_splits)

lemma publish_loop_pubs:
  assumes "publish_loop e p m ps results pubs = (results', pubs')"
  shows "(\<exists>added. pubs' = pubs @ added) \<and>
         (distinct (map pub_key pubs) \<longrightarrow> distinct (map pub_key pubs'))"
  using assms
proof (induction ps arbitrary: results pubs)
  case Nil
  then show ?case by simp
next
  case (Cons pl ps)
  show ?case
  proof (cases "publish_platform e p m pubs pl")
    case (Inl ex)
    with Cons show ?thesis by (cases ex) auto
  next
    case (Inr op)
    obtain out pubs1 where op: "op = (out, pubs1)" by (cases op)
    from Inr op Cons.prems
    have loop: "publish_loop e p m ps (dict_set pl out results) pubs1 = (results', pubs')"
      by simp
    from publish_platform_pubs[OF Inr[unfolded op]]
    have step: "(\<exists>a. pubs1 = pubs @ a) \<and>
                (distinct (map pub_key pubs) \<longrightarrow> distinct (map pub_key pubs1))"
      by auto
    from Cons.IH[OF loop] step show ?thesis by auto
  qed
qed

lemma publish_platform_existing:
  assumes "objects_get (accounts e) (post_user p) pl = Inr acct"
      and "(post_pk p, acc_pk acct) \<in> set (map pub_key pubs)"
      and "publish_platform e p m pubs pl = Inr (out, pubs')"
  shows "pubs' = pubs \<and> (\<exists>msg. out = [(''error'', JStr msg)])"
  using assms
  by (auto simp: publish_platform_def objects_create_def Let_def pub_key_def
           split: sum.splits option.splits if_splits)

lemma publish_loop_existing:
  assumes "objects_get (accounts e) (post_user p) pl = Inr acct"
      and "(post_pk p, acc_pk acct) \<in> set (map pub_key pubs)"
      and "pl \<in> set ps \<or> (\<exists>msg. map_of results pl = Some [(''error'', JStr msg)])"
      and "publish_loop e p m ps results pubs = (results', pubs')"
  shows "\<exists>msg. map_of results' pl = Some [(''error'', JStr msg)]"
  using assms(2-)
proof (induction ps arbitrary: results pubs)
  case Nil
  then show ?case by simp
next
  case (Cons q ps)
  show ?case
  proof (cases "publish_platform e p m pubs q")
    case (Inl ex)
    define out where
      "out = (case ex of
                DoesNotExist \<Rightarrow> [(''error'', JStr (''No active '' @ q @ '' account found''))]
              | _ \<Rightarrow> [(''error'', JStr (str_exn ex))])"
    from Inl Cons.prems(3)
    have loop: "publish_loop e p m ps (dict_set q out results) pubs = (results', pubs')"
      by (cases ex) (auto simp: out_def)
    have err: "\<exists>msg. out = [(''error'', JStr msg)]"
      by (cases ex) (auto simp: out_def)
    have "pl \<in> set ps \<or> (\<exists>msg. map_of (dict_set q out results) pl = Some [(''error'', JStr msg)])"
      using Cons.prems(2) err by (auto simp: dict_set_def update_conv')
    from Cons.IH[OF Cons.prems(1) this loop] show ?thesis .
  next
    case (Inr op)
    obtain out pubs1 where op: "op = (out, pubs1)" by (cases op)
    from Inr op Cons.prems(3)
    have loop: "publish_loop e p m ps (dict_set q out results) pubs1 = (results', pubs')"
      by simp
    from publish_platform_pubs[OF Inr[unfolded op]] Cons.prems(1)
    have key: "(post_pk p, acc_pk acct) \<in> set (map pub_key pubs1)" by auto
    have "pl \<in> set ps \<or> (\<exists>msg. map_of (dict_set q out results) pl = Some [(''error'', JStr msg)])"
    proof (cases "q = pl")
      case True
      with publish_platform_existing[OF assms(1) Cons.prems(1)] Inr op
      show ?thesis by (auto simp: dict_set_def update_conv')
    next
      case False
      with Cons.prems(2) show ?thesis by (auto simp: dict_set_def update_conv')
    qed
    from Cons.IH[OF key this loop] show ?thesis .
  qed
qed

subsection \<open>The concrete runs\<close>

lemma first_publish_value:
  "first_publish =
     ([(''facebook'', [(''success'', JBool True), (''post_id'', JStr ''fb123''), (''error'', JStr [])]),
       (''twitter'', [(''error'', JStr ''No active twitter account found'')])],
      (draft_post [''facebook'', ''twitter''])\<lparr>status := Published, published_date := Some 100\<rparr>,
      [fb_attempt])"
  by code_simp

lemma second_publish_value:
  "second_publish =
     ([(''facebook'', [(''error'', JStr ''UNIQUE constraint failed'')]),
       (''twitter'', [(''success'', JBool True), (''post_id'', JStr ''tw456''), (''error'', JStr [])])],
      (draft_post [''facebook'', ''twitter''])\<lparr>status := Published, published_date := Some 200\<rparr>,
      [fb_attempt, tw_attempt\<lparr>published_at := Some 200\<rparr>])"
  by code_simp

lemma failed_publish_value:
  "failed_publish =
     ([(''facebook'', [(''success'', JBool False), (''post_id'', JStr []),
                       (''error'', JStr ''rate limited'')])],
      (draft_post [''facebook''])\<lparr>status := Failed\<rparr>,
      [fb_attempt\<lparr>platform_post_id := JStr [], published_at := None,
                  error_message := JStr ''rate limited'', is_success := False\<rparr>])"
  by code_simp

lemma republish_value:
  "republish =
     ([(''facebook'', [(''error'', JStr ''UNIQUE constraint failed'')])],
      (draft_post [''facebook''])\<lparr>status := Failed\<rparr>,
      [fb_attempt\<lparr>platform_post_id := JStr [], published_at := None,
                  error_message := JStr ''rate limited'', is_success := False\<rparr>])"
  by code_simp

lemma mixed_publish_value:
  "fst mixed_publish =
     [(''linkedin'', [(''error'', JStr ''No active linkedin account found'')]),
      (''twitter'', [(''error'', JStr ''connection refused'')]),
      (''facebook'', [(''success'', JBool True), (''post_id'', JStr ''fb123''), (''error'', JStr [])]),
      (''instagram'', [(''error'', JStr ''Platform instagram not supported'')])]"
  by code_simp

subsection \<open>One outcome for each platform\<close>

text \<open>
  C3. For every post with target platform list P, \<^verbatim>\<open>publish_post\<close> returns a dictionary
  with exactly one outcome for each platform in P, no more and no fewer: the keys of the
  result are the platforms of the post, each once. This holds for every environment, so
  whatever a platform meets (missing account, failure reported by the adapter, exception)
  the platforms after it still get their outcome.
\<close>

theorem publish_post_one_outcome_per_platform:
  "set (map fst (fst (publish_post e p m pubs))) = set (platforms p) \<and>
   distinct (map fst (fst (publish_post e p m pubs)))"
  by (simp add: publish_post_results publish_loop_keys publish_loop_distinct)

theorem publish_post_one_outcome_per_platform_witness:
  "set (map fst (fst mixed_publish)) = {''linkedin'', ''twitter'', ''facebook'', ''instagram''} \<and>
   distinct (map fst (fst mixed_publish)) \<and>
   map_of (fst mixed_publish) ''twitter'' = Some [(''error'', JStr ''connection refused'')] \<and>
   map_of (fst mixed_publish) ''facebook'' =
     Some [(''success'', JBool True), (''post_id'', JStr ''fb123''), (''error'', JStr [])]"
proof -
  have "platforms (draft_post [''linkedin'', ''twitter'', ''facebook'', ''instagram''])
          = [''linkedin'', ''twitter'', ''facebook'', ''instagram'']"
    by (simp add: draft_post_def)
  with publish_post_one_outcome_per_platform
         [of "env_const [fb_account, tw_account, ig_account] (Response [(''id'', JStr ''fb123'')]) 100"
             "draft_post [''linkedin'', ''twitter'', ''facebook'', ''instagram'']"
             "[''http://img/a.png'']" "[]"]
  have "set (map fst (fst mixed_publish)) = {''linkedin'', ''twitter'', ''facebook'', ''instagram''} \<and>
        distinct (map fst (fst mixed_publish))"
    unfolding mixed_publish_def by auto
  then show ?thesis by (simp add: mixed_publish_value)
qed

subsection \<open>The status of the post\<close>

text \<open>
  C4. After \<^verbatim>\<open>publish_post\<close> the status of the post is \<open>Published\<close> if at least one
  outcome in the returned dictionary succeeded and \<open>Failed\<close> if none did; an outcome
  without a \<open>success\<close> entry, such as that of a missing active account, counts as failed.
\<close>

theorem publish_post_status:
  assumes "publish_post e p m pubs = (results, p', pubs')"
  shows "status p' =
    (if (\<exists>r \<in> snd ` set results. truthy (dict_get r ''success'' JNull))
     then Published else Failed)"
  using assms successful_platforms_iff[of results]
  by (auto simp: publish_post_def split: prod.splits if_splits)

text \<open>
  The two runs of the specification: Facebook succeeds with \<open>fb123\<close> and Twitter is
  rate-limited; LinkedIn alone, with no active LinkedIn account.
\<close>

theorem publish_post_status_witness:
  "fst (publish_post env_fb_ok_tw_limited (draft_post [''facebook'', ''twitter'']) [] []) =
     [(''facebook'', [(''success'', JBool True), (''post_id'', JStr ''fb123''), (''error'', JStr [])]),
      (''twitter'', [(''success'', JBool False), (''post_id'', JStr []),
                     (''error'', JStr ''rate limited'')])] \<and>
   status (fst (snd (publish_post env_fb_ok_tw_limited (draft_post [''facebook'', ''twitter'']) [] [])))
     = Published \<and>
   fst (publish_post env_fb_ok_tw_limited (draft_post [''linkedin'']) [] []) =
     [(''linkedin'', [(''error'', JStr ''No active linkedin account found'')])] \<and>
   status (fst (snd (publish_post env_fb_ok_tw_limited (draft_post [''linkedin'']) [] []))) = Failed"
proof -
  let ?a = "publish_post env_fb_ok_tw_limited (draft_post [''facebook'', ''twitter'']) [] []"
  let ?b = "publish_post env_fb_ok_tw_limited (draft_post [''linkedin'']) [] []"
  have a: "fst ?a =
     [(''facebook'', [(''success'', JBool True), (''post_id'', JStr ''fb123''), (''error'', JStr [])]),
      (''twitter'', [(''success'', JBool False), (''post_id'', JStr []),
                     (''error'', JStr ''rate limited'')])]"
    by code_simp
  have b: "fst ?b = [(''linkedin'', [(''error'', JStr ''No active linkedin account found'')])]"
    by code_simp
  from publish_post_status[OF publish_post_collapse, of env_fb_ok_tw_limited
         "draft_post [''facebook'', ''twitter'']" "[]" "[]"]
  have sa: "status (fst (snd ?a)) = Published"
    by (simp add: a dict_get_def)
  from publish_post_status[OF publish_post_collapse, of env_fb_ok_tw_limited
         "draft_post [''linkedin'']" "[]" "[]"]
  have sb: "status (fst (snd ?b)) = Failed"
    by (simp add: b dict_get_def)
  from a b sa sb show ?thesis by simp
qed

subsection \<open>The publication date\<close>

text \<open>
  C1, as amended. Every \<^verbatim>\<open>publish_post\<close> with at least one successful outcome sets
  \<open>published_date\<close> to the clock reading of that call, also when the date was already
  set, so a later successful publish of the same post advances it. A publish without
  a successful outcome leaves \<open>published_date\<close> as it was.
\<close>

theorem publish_post_published_date:
  assumes "publish_post e p m pubs = (results, p', pubs')"
  shows "published_date p' =
    (if (\<exists>r \<in> snd ` set results. truthy (dict_get r ''success'' JNull))
     then Some (now e) else published_date p)"
  using assms successful_platforms_iff[of results]
  by (auto simp: publish_post_def split: prod.splits if_splits)

theorem publish_post_published_date_witness:
  "published_date (fst (snd failed_publish)) = None \<and>
   published_date (fst (snd (publish_post
       (env_const [fb_account, tw_account] (Response [(''id'', JStr ''tw456'')]) 200)
       (fst (snd first_publish)) [] (snd (snd first_publish))))) = Some 200"
proof -
  have r1: "\<not> (\<exists>r \<in> snd ` set (fst failed_publish). truthy (dict_get r ''success'' JNull))"
    by (simp add: failed_publish_value dict_get_def)
  have r2: "\<exists>r \<in> snd ` set (fst second_publish). truthy (dict_get r ''success'' JNull)"
    by (simp add: second_publish_value dict_get_def)
  from publish_post_published_date[OF publish_post_collapse,
         of "env_const [fb_account] (RequestFailed ''rate limited'') 100"
            "draft_post [''facebook'']" "[]" "[]"] r1
  have a: "published_date (fst (snd failed_publish)) = None"
    by (simp add: failed_publish_def draft_post_def)
  from publish_post_published_date[OF publish_post_collapse,
         of "env_const [fb_account, tw_account] (Response [(''id'', JStr ''tw456'')]) 200"
            "fst (snd first_publish)" "[]" "snd (snd first_publish)"] r2
  have b: "published_date (fst (snd (publish_post
       (env_const [fb_account, tw_account] (Response [(''id'', JStr ''tw456'')]) 200)
       (fst (snd first_publish)) [] (snd (snd first_publish))))) = Some 200"
    by (simp add: second_publish_def env_const_def)
  from a b show ?thesis by simp
qed

text \<open>
  The claim as stated fails: the first publish succeeds on Facebook at time 100, the
  second succeeds on Twitter at time 200, and the date moves from 100 to 200.
\<close>

theorem published_date_advanced_counterexample:
  "successful_platforms (fst first_publish) = [''facebook''] \<and>
   published_date (fst (snd first_publish)) = Some 100 \<and>
   successful_platforms (fst second_publish) = [''twitter''] \<and>
   published_date (fst (snd second_publish)) = Some 200 \<and>
   published_date (fst (snd second_publish)) \<noteq> published_date (fst (snd first_publish))"
  by (simp add: first_publish_value second_publish_value successful_platforms_def dict_get_def)

subsection \<open>Attempt records\<close>

text \<open>
  C2, as amended. At most one \<^verbatim>\<open>PostPublication\<close> row exists for a (post, account)
  pair: \<^verbatim>\<open>publish_post\<close> keeps the keys of the table distinct. It never overwrites a row:
  the rows that were there stay as they were, in place, and new rows are added after
  them. When the post already has a row for the active account of a target platform,
  the outcome of that platform is an error and nothing else.
\<close>

theorem publish_post_attempts:
  assumes "distinct (map pub_key pubs)"
      and "publish_post e p m pubs = (results, p', pubs')"
  shows "distinct (map pub_key pubs') \<and> (\<exists>added. pubs' = pubs @ added) \<and>
         (\<forall>pl acct. pl \<in> set (platforms p) \<and>
                    objects_get (accounts e) (post_user p) pl = Inr acct \<and>
                    (post_pk p, acc_pk acct) \<in> set (map pub_key pubs)
            \<longrightarrow> (\<exists>msg. map_of results pl = Some [(''error'', JStr msg)]))"
proof -
  from assms(2) have loop: "publish_loop e p m (platforms p) [] pubs = (results, pubs')"
    by (auto simp: publish_post_def split: prod.splits)
  from publish_loop_pubs[OF loop] assms(1)
  have a: "distinct (map pub_key pubs') \<and> (\<exists>added. pubs' = pubs @ added)" by simp
  have b: "\<exists>msg. map_of results pl = Some [(''error'', JStr msg)]"
    if "pl \<in> set (platforms p)" "objects_get (accounts e) (post_user p) pl = Inr acct"
       "(post_pk p, acc_pk acct) \<in> set (map pub_key pubs)" for pl acct
    using publish_loop_existing[OF that(2) that(3) _ loop] that(1) by blast
  from a b show ?thesis by blast
qed

theorem publish_post_attempts_witness:
  "distinct (map pub_key (snd (snd failed_publish))) \<and>
   ''facebook'' \<in> set (platforms (fst (snd failed_publish))) \<and>
   objects_get [fb_account] (post_user (fst (snd failed_publish))) ''facebook'' = Inr fb_account \<and>
   (post_pk (fst (snd failed_publish)), acc_pk fb_account)
      \<in> set (map pub_key (snd (snd failed_publish))) \<and>
   distinct (map pub_key (snd (snd republish))) \<and>
   snd (snd republish) = snd (snd failed_publish) \<and>
   map_of (fst republish) ''facebook'' = Some [(''error'', JStr ''UNIQUE constraint failed'')]"
proof -
  let ?e = "env_const [fb_account] (Response [(''id'', JStr ''fb123'')]) 200"
  have h1: "distinct (map pub_key (snd (snd failed_publish)))"
    by (simp add: failed_publish_value)
  have h2: "publish_post ?e (fst (snd failed_publish)) [] (snd (snd failed_publish))
              = (fst republish, fst (snd republish), snd (snd republish))"
    by (simp add: republish_def)
  have h3: "''facebook'' \<in> set (platforms (fst (snd failed_publish)))"
    by (simp add: failed_publish_value draft_post_def)
  have h4: "objects_get (accounts ?e) (post_user (fst (snd failed_publish))) ''facebook'' = Inr fb_account"
    by (simp add: failed_publish_value draft_post_def env_const_def objects_get_def fb_account_def)
  have h5: "(post_pk (fst (snd failed_publish)), acc_pk fb_account)
              \<in> set (map pub_key (snd (snd failed_publish)))"
    by (simp add: failed_publish_value draft_post_def pub_key_def fb_attempt_def fb_account_def)
  from publish_post_attempts[OF h1 h2] h3 h4 h5
  have c: "distinct (map pub_key (snd (snd republish))) \<and>
        (\<exists>added. snd (snd republish) = snd (snd failed_publish) @ added) \<and>
        (\<exists>msg. map_of (fst republish) ''facebook'' = Some [(''error'', JStr msg)])"
    by blast
  have v: "snd (snd republish) = snd (snd failed_publish)"
          "map_of (fst republish) ''facebook'' = Some [(''error'', JStr ''UNIQUE constraint failed'')]"
    by (simp_all add: republish_value failed_publish_value)
  from h1 h3 h4 h5 c v show ?thesis by (simp add: env_const_def)
qed

text \<open>
  The claim as stated fails: publish to Facebook and fail, publish again and have
  Facebook accept the post. One row is left, and it holds the failure of the first
  publish; the outcome of the second publish is the rejected insert.
\<close>

theorem republish_keeps_failure_counterexample:
  "create_post FacebookAPI (env_const [fb_account] (Response [(''id'', JStr ''fb123'')]) 200)
     fb_account ''hello'' [] = Inr [(''id'', JStr ''fb123'')] \<and>
   map is_success (snd (snd republish)) = [False] \<and>
   map error_message (snd (snd republish)) = [JStr ''rate limited''] \<and>
   fst republish = [(''facebook'', [(''error'', JStr ''UNIQUE constraint failed'')])]"
proof -
  have "create_post FacebookAPI (env_const [fb_account] (Response [(''id'', JStr ''fb123'')]) 200)
     fb_account ''hello'' [] = Inr [(''id'', JStr ''fb123'')]"
    by code_simp
  then show ?thesis by (simp add: republish_value)
qed

subsection \<open>No target platform\<close>

text \<open>
  C10. Publishing a post whose platform list is empty returns the empty dictionary,
  creates no attempt record, sets the status to \<open>Failed\<close> and does not touch
  \<open>published_date\<close>: a date that was unset stays unset.
\<close>

theorem publish_post_no_platforms:
  assumes "platforms p = []"
      and "publish_post e p m pubs = (results, p', pubs')"
  shows "results = [] \<and> pubs' = pubs \<and> status p' = Failed \<and>
         published_date p' = published_date p"
  using assms by (auto simp: publish_post_def successful_platforms_def)

theorem publish_post_no_platforms_witness:
  "platforms (draft_post []) = [] \<and>
   publish_post env_fb_ok_tw_limited (draft_post []) [''http://img/a.png''] [fb_attempt] =
     ([], (draft_post [])\<lparr>status := Failed\<rparr>, [fb_attempt]) \<and>
   published_date (fst (snd (publish_post env_fb_ok_tw_limited (draft_post [])
      [''http://img/a.png''] [fb_attempt]))) = None"
proof -
  let ?r = "publish_post env_fb_ok_tw_limited (draft_post []) [''http://img/a.png''] [fb_attempt]"
  have h: "platforms (draft_post []) = []" by (simp add: draft_post_def)
  from publish_post_no_platforms[OF h publish_post_collapse, of env_fb_ok_tw_limited
         "[''http://img/a.png'']" "[fb_attempt]"]
  have c: "fst ?r = [] \<and> snd (snd ?r) = [fb_attempt] \<and> status (fst (snd ?r)) = Failed \<and>
           published_date (fst (snd ?r)) = None"
    by (simp add: draft_post_def)
  have "?r = ([], (draft_post [])\<lparr>status := Failed\<rparr>, [fb_attempt])"
    by (simp add: publish_post_def h successful_platforms_def)
  with h c show ?thesis by simp
qed

section \<open>Properties of the adapters\<close>

lemma upload_loop_all_fail:
  assumes "\<forall>u \<in> set us. \<exists>m. up u = Inr m \<and> \<not> truthy m"
  shows "upload_loop up us ms = Inr ms"
  using assms by (induction us arbitrary: ms) auto

subsection \<open>Media uploads that all fail\<close>

text \<open>
  C5, as amended. When the upload of every media item of a \<^verbatim>\<open>create_post\<close> call
  returns no handle, the adapter sends the request it sends for a post without media
  and returns that request's result: the text is posted alone, and no media upload
  failure is reported for the call.
\<close>

theorem create_post_all_uploads_fail:
  assumes "\<forall>u \<in> set media_urls. \<exists>m. upload_media cls e acct u = Inr m \<and> \<not> truthy m"
  shows "create_post cls e acct text media_urls = create_post cls e acct text []"
proof (cases cls)
  case FacebookAPI
  with assms have "upload_loop (\<lambda>u. Inr (FacebookAPI_upload_media e acct u)) media_urls [] = Inr []"
    by (intro upload_loop_all_fail) simp
  with FacebookAPI show ?thesis by (simp add: FacebookAPI_create_post_def)
next
  case TwitterAPI
  with assms have "upload_loop (TwitterAPI_upload_media e acct) media_urls [] = Inr []"
    by (intro upload_loop_all_fail) simp
  with TwitterAPI show ?thesis by (simp add: TwitterAPI_create_post_def)
next
  case LinkedInAPI
  with assms have "upload_loop (LinkedInAPI_upload_media e acct) media_urls [] = Inr []"
    by (intro upload_loop_all_fail) simp
  with LinkedInAPI show ?thesis by (simp add: LinkedInAPI_create_post_def)
qed

theorem create_post_all_uploads_fail_witness:
  "upload_media FacebookAPI env_fb_text_only fb_account ''http://img/a.png'' = Inr JNull \<and>
   upload_media FacebookAPI env_fb_text_only fb_account ''http://img/b.png'' = Inr JNull \<and>
   \<not> truthy JNull \<and>
   create_post FacebookAPI env_fb_text_only fb_account ''hello''
     [''http://img/a.png'', ''http://img/b.png'']
   = create_post FacebookAPI env_fb_text_only fb_account ''hello'' [] \<and>
   create_post FacebookAPI env_fb_text_only fb_account ''hello'' [] = Inr [(''id'', JStr ''fb123'')]"
proof -
  have up: "FacebookAPI_upload_media env_fb_text_only fb_account u = JNull" for u
    by (simp add: FacebookAPI_upload_media_def env_fb_text_only_def make_request_def
          mk_request_def has_key_def FACEBOOK_def fb_account_def)
  have h: "\<forall>u \<in> set [''http://img/a.png'', ''http://img/b.png''].
      \<exists>m. upload_media FacebookAPI env_fb_text_only fb_account u = Inr m \<and> \<not> truthy m"
    by (simp add: up)
  have v: "create_post FacebookAPI env_fb_text_only fb_account ''hello'' [] = Inr [(''id'', JStr ''fb123'')]"
    by code_simp
  from create_post_all_uploads_fail[OF h, of "''hello''"] up v show ?thesis by simp
qed

text \<open>
  The claim as stated fails: both uploads are refused, and \<^verbatim>\<open>create_post\<close> returns the
  success of the text-only post, with no error in it.
\<close>

theorem text_only_posted_counterexample:
  "FacebookAPI_upload_media env_fb_text_only fb_account ''http://img/a.png'' = JNull \<and>
   FacebookAPI_upload_media env_fb_text_only fb_account ''http://img/b.png'' = JNull \<and>
   FacebookAPI_create_post env_fb_text_only fb_account ''hello''
     [''http://img/a.png'', ''http://img/b.png''] = Inr [(''id'', JStr ''fb123'')] \<and>
   \<not> has_key [(''id'', JStr ''fb123'')] ''error''"
  by code_simp

subsection \<open>Exceptions of create post\<close>

text \<open>
  C6. \<^verbatim>\<open>create_post\<close> of an adapter is to return an ordinary remote failure as data.
  The Twitter adapter does not when a media item is attached and the host of the media
  cannot be reached: \<^verbatim>\<open>_upload_media\<close> calls \<^verbatim>\<open>requests.get\<close> outside
  \<^verbatim>\<open>_make_request\<close>, and the exception leaves \<^verbatim>\<open>create_post\<close>.
\<close>

theorem twitter_create_post_raises:
  "TwitterAPI_create_post (env_const [tw_account] (Response twitter_created) 100) tw_account
     ''hello'' [''http://img/a.png''] = Inl (RequestException ''connection refused'')"
  by code_simp

subsection \<open>What delete post returns\<close>

text \<open>
  C7, as amended. \<^verbatim>\<open>delete_post\<close> of an adapter returns true exactly when the delete
  request came back with a decoded body that has no \<open>error\<close> key. No confirmation is
  looked for in the body: a response that only lacks an \<open>error\<close> field counts as a
  successful delete.
\<close>

theorem delete_post_iff_no_error_key:
  "delete_post cls e acct pid \<longleftrightarrow>
     (\<exists>body. http e (delete_request cls acct pid) = Response body \<and> \<not> has_key body ''error'')"
  by (cases cls; cases "http e (delete_request cls acct pid)")
     (auto simp: FacebookAPI_delete_post_def TwitterAPI_delete_post_def LinkedInAPI_delete_post_def
        delete_request_def make_request_def has_key_def)

theorem delete_post_iff_no_error_key_witness:
  "delete_post TwitterAPI (env_const [tw_account] (Response [(''data'', JObj [(''deleted'', JBool True)])]) 100)
     tw_account (JStr ''tw456'') \<and>
   \<not> delete_post TwitterAPI (env_const [tw_account] (RequestFailed ''404 Not Found'') 100)
     tw_account (JStr ''tw456'')"
  using delete_post_iff_no_error_key
          [of TwitterAPI "env_const [tw_account] (Response [(''data'', JObj [(''deleted'', JBool True)])]) 100"
              tw_account "JStr ''tw456''"]
        delete_post_iff_no_error_key
          [of TwitterAPI "env_const [tw_account] (RequestFailed ''404 Not Found'') 100"
              tw_account "JStr ''tw456''"]
  by (simp add: env_const_def has_key_def)

text \<open>
  The claim as stated fails: the platform answers the delete request with the empty
  JSON object, which confirms nothing, and \<^verbatim>\<open>delete_post\<close> returns true.
\<close>

theorem delete_without_confirmation_counterexample:
  "delete_post FacebookAPI (env_const [fb_account] (Response []) 100) fb_account (JStr ''fb123'') \<and>
   delete_post TwitterAPI (env_const [tw_account] (Response []) 100) tw_account (JStr ''tw456'') \<and>
   delete_post LinkedInAPI (env_const [li_account] (Response [(''unrelated'', JStr ''content'')]) 100)
     li_account (JStr ''li789'')"
  by code_simp

subsection \<open>The stored platform post id\<close>

text \<open>
  C9. The attempt record of a successful publish is to hold the id the platform gave the
  post. For Twitter it does not: the create response carries the id under \<open>data\<close>,
  \<^verbatim>\<open>publish_post\<close> reads the key \<open>id\<close> of the response itself, and the record of the
  successful attempt holds the empty id.
\<close>

theorem twitter_success_stores_empty_id:
  "create_post TwitterAPI (env_const [tw_account] (Response twitter_created) 100) tw_account
     ''hello'' [] = Inr twitter_created \<and>
   map is_success
     (snd (snd (publish_post (env_const [tw_account] (Response twitter_created) 100)
                  (draft_post [''twitter'']) [] []))) = [True] \<and>
   map platform_post_id
     (snd (snd (publish_post (env_const [tw_account] (Response twitter_created) 100)
                  (draft_post [''twitter'']) [] []))) = [JStr []] \<and>
   fst (publish_post (env_const [tw_account] (Response twitter_created) 100)
          (draft_post [''twitter'']) [] [])
   = [(''twitter'', [(''success'', JBool True), (''post_id'', JStr []), (''error'', JStr [])])]"
  by code_simp

section \<open>Properties of get post analytics\<close>

lemma analytics_loop_keys:
  "fst ` set (fst (analytics_loop e rows analytics tab))
     \<subseteq> fst ` set analytics \<union> (\<lambda>pub. acc_platform (pub_account pub)) ` set rows"
proof (induction rows arbitrary: analytics tab)
  case Nil
  then show ?case by simp
next
  case (Cons pub rows)
  have upd: "fst ` set (dict_set (acc_platform (pub_account pub)) v analytics)
        \<subseteq> fst ` set analytics \<union> {acc_platform (pub_account pub)}" for v
    by (simp add: dict_set_def dom_update)
  have same: "fst ` set analytics \<subseteq> fst ` set analytics \<union> {acc_platform (pub_account pub)}"
    by auto
  have step: "fst ` set (fst (analytics_loop e rows a t))
        \<subseteq> fst ` set analytics \<union> (\<lambda>pub. acc_platform (pub_account pub)) ` set (pub # rows)"
    if "fst ` set a \<subseteq> fst ` set analytics \<union> {acc_platform (pub_account pub)}" for a t
    using Cons.IH[of a t] that by auto
  show ?case
  proof (cases "API_CLASSES (acc_platform (pub_account pub))")
    case None
    from step[OF same, of tab] None show ?thesis by simp
  next
    case (Some cls)
    show ?thesis
    proof (cases "adapter_get_post_analytics cls e (pub_account pub) (platform_post_id pub)")
      case (Inl ex)
      with Some show ?thesis using step[OF upd] by simp
    next
      case (Inr pa)
      from step[OF same, of tab] step[OF upd] Inr Some show ?thesis by simp
    qed
  qed
qed

lemma analytics_loop_frame:
  assumes "snd (analytics_loop e rows analytics tab) k \<noteq> tab k"
  shows "\<exists>pub \<in> set rows. pub_key pub = k \<and> adapter_result_nonempty e pub"
  using assms
proof (induction rows arbitrary: analytics tab)
  case Nil
  then show ?case by simp
next
  case (Cons pub rows)
  show ?case
  proof (cases "adapter_result_nonempty e pub")
    case False
    with Cons.prems have "\<exists>a. snd (analytics_loop e rows a tab) k \<noteq> tab k"
      by (auto simp: adapter_result_nonempty_def split: option.splits sum.splits if_splits)
    with Cons.IH show ?thesis by auto
  next
    case True
    then obtain cls pa where
      c: "API_CLASSES (acc_platform (pub_account pub)) = Some cls"
         "adapter_get_post_analytics cls e (pub_account pub) (platform_post_id pub) = Inr pa"
         "pa \<noteq> []"
      by (auto simp: adapter_result_nonempty_def split: option.splits sum.splits)
    show ?thesis
    proof (cases "pub_key pub = k")
      case True
      with \<open>adapter_result_nonempty e pub\<close> show ?thesis by auto
    next
      case False
      let ?tab1 = "store_analytics e tab (pub_key pub) pa"
      have same: "?tab1 k = tab k"
        using False by (auto simp: store_analytics_def split: option.splits)
      from Cons.prems c
      have "snd (analytics_loop e rows
                   (dict_set (acc_platform (pub_account pub)) pa analytics) ?tab1) k \<noteq> ?tab1 k"
        by (simp add: same)
      from Cons.IH[OF this] show ?thesis by auto
    qed
  qed
qed

text \<open>
  C8. \<^verbatim>\<open>get_post_analytics\<close> returns an entry only for a platform on which the post has a
  successful attempt, and leaves the stored snapshot of an attempt as it was when the
  attempt is of another post, is not successful, or its adapter returned the empty
  result (or raised): the counters stored before are kept.
\<close>

theorem get_post_analytics_frame:
  assumes "get_post_analytics e p pubs tab = (analytics, tab')"
      and "distinct (map pub_key pubs)"
  shows "(\<forall>platform \<in> fst ` set analytics.
            \<exists>pub \<in> set pubs. pub_post pub = post_pk p \<and> is_success pub \<and>
                             acc_platform (pub_account pub) = platform) \<and>
         (\<forall>pub \<in> set pubs.
              pub_post pub \<noteq> post_pk p \<or> \<not> is_success pub \<or> \<not> adapter_result_nonempty e pub
            \<longrightarrow> tab' (pub_key pub) = tab (pub_key pub))"
proof -
  let ?rows = "filter (\<lambda>pub. pub_post pub = post_pk p \<and> is_success pub) pubs"
  from assms(1) have an: "analytics = fst (analytics_loop e ?rows [] tab)"
    and tb: "tab' = snd (analytics_loop e ?rows [] tab)"
    by (simp_all add: get_post_analytics_def)
  have a: "\<exists>pub \<in> set pubs. pub_post pub = post_pk p \<and> is_success pub \<and>
                             acc_platform (pub_account pub) = platform"
    if "platform \<in> fst ` set analytics" for platform
  proof -
    from that analytics_loop_keys[of e ?rows "[]" tab]
    have "platform \<in> (\<lambda>pub. acc_platform (pub_account pub)) ` set ?rows"
      unfolding an by auto
    then show ?thesis by auto
  qed
  have b: "tab' (pub_key pub) = tab (pub_key pub)"
    if "pub \<in> set pubs"
       "pub_post pub \<noteq> post_pk p \<or> \<not> is_success pub \<or> \<not> adapter_result_nonempty e pub" for pub
  proof (rule ccontr)
    assume "tab' (pub_key pub) \<noteq> tab (pub_key pub)"
    from analytics_loop_frame[OF this[unfolded tb]]
    obtain q where q: "q \<in> set pubs" "pub_post q = post_pk p" "is_success q"
      "pub_key q = pub_key pub" "adapter_result_nonempty e q" by auto
    from assms(2) have "inj_on pub_key (set pubs)" by (simp add: distinct_map)
    with q(1,4) that(1) have "q = pub" by (auto dest: inj_onD)
    with q that(2) show False by auto
  qed
  from a b show ?thesis by blast
qed

text \<open>
  A post with a successful Facebook attempt, a successful Twitter attempt with the stored
  snapshot \<open>likes = 10\<close>, and a failed LinkedIn attempt. Facebook answers, Twitter is
  unavailable: the result has the Facebook entry alone, the Twitter snapshot is kept, and
  LinkedIn gets no snapshot.
\<close>

theorem get_post_analytics_frame_witness:
  "distinct (map pub_key [fb_attempt, tw_attempt, li_attempt]) \<and>
   \<not> adapter_result_nonempty env_analytics tw_attempt \<and>
   \<not> is_success li_attempt \<and>
   map fst (fst (get_post_analytics env_analytics (draft_post [])
        [fb_attempt, tw_attempt, li_attempt] [(10, 2) \<mapsto> tw_snapshot])) = [''facebook''] \<and>
   snd (get_post_analytics env_analytics (draft_post [])
        [fb_attempt, tw_attempt, li_attempt] [(10, 2) \<mapsto> tw_snapshot]) (10, 2) = Some tw_snapshot \<and>
   dict_get tw_snapshot ''likes'' JNull = JNum 10 \<and>
   snd (get_post_analytics env_analytics (draft_post [])
        [fb_attempt, tw_attempt, li_attempt] [(10, 2) \<mapsto> tw_snapshot]) (10, 4) = None"
proof -
  let ?pubs = "[fb_attempt, tw_attempt, li_attempt]"
  let ?tab = "[(10, 2) \<mapsto> tw_snapshot] :: analytics_table"
  let ?r = "get_post_analytics env_analytics (draft_post []) ?pubs ?tab"
  have d: "distinct (map pub_key ?pubs)"
    by (simp add: pub_key_def fb_attempt_def tw_attempt_def li_attempt_def
          fb_account_def tw_account_def li_account_def)
  have tw: "\<not> adapter_result_nonempty env_analytics tw_attempt"
    by code_simp
  have li: "\<not> is_success li_attempt"
    by (simp add: li_attempt_def)
  have keys: "pub_key tw_attempt = (10, 2)" "pub_key li_attempt = (10, 4)"
    by (simp_all add: pub_key_def tw_attempt_def li_attempt_def tw_account_def li_account_def)
  have fstr: "map fst (fst ?r) = [''facebook'']"
    by code_simp
  have likes: "dict_get tw_snapshot ''likes'' JNull = JNum 10"
    by code_simp
  from get_post_analytics_frame[OF prod.collapse[symmetric] d, of env_analytics "draft_post []" ?tab]
  have fr: "\<forall>pub \<in> set ?pubs.
              pub_post pub \<noteq> post_pk (draft_post []) \<or> \<not> is_success pub \<or>
               \<not> adapter_result_nonempty env_analytics pub
            \<longrightarrow> snd ?r (pub_key pub) = ?tab (pub_key pub)"
    by blast
  from fr tw have "snd ?r (pub_key tw_attempt) = ?tab (pub_key tw_attempt)" by simp
  moreover from fr li have "snd ?r (pub_key li_attempt) = ?tab (pub_key li_attempt)" by simp
  ultimately show ?thesis using d tw li fstr likes by (simp add: keys)
qed

end
